theory Spec2Isabelle
  imports Complex_Main
begin

section \<open>Shared constants (morpheus\_common/\_morpheus\_shared.py)\<close>

definition MAX_WORKERS :: int where
  "MAX_WORKERS = 1024"

definition DEFAULT_SLICE_NS :: int where
  "DEFAULT_SLICE_NS = 5 * 1000000"

definition GRACE_PERIOD_NS :: int where
  "GRACE_PERIOD_NS = 100 * 1000000"

definition RINGBUF_SIZE :: int where
  "RINGBUF_SIZE = 256 * 1024"

section \<open>The module object behind \<open>_morpheus\<close>\<close>

text \<open>
  Every helper of \<open>morpheus/asyncio.py\<close> and \<open>morpheus_asyncio.py\<close> talks to the module
  global \<open>_morpheus\<close>: the native extension when its import succeeded, an instance of
  \<open>_MorpheusStub\<close> otherwise. The native extension is not Python code of this repository,
  so the module object is a record of its methods over an arbitrary runtime state \<open>'s\<close>;
  each method takes the runtime state and returns its result and the state after the call.
\<close>

record 's morpheus_module =
  checkpoint :: "'s \<Rightarrow> bool \<times> 's"
  yield_requested :: "'s \<Rightarrow> bool \<times> 's"
  acknowledge_yield :: "'s \<Rightarrow> bool \<times> 's"
  enter_critical_section :: "'s \<Rightarrow> unit \<times> 's"
  exit_critical_section :: "'s \<Rightarrow> unit \<times> 's"
  is_in_critical_section :: "'s \<Rightarrow> bool \<times> 's"
  pressure_level :: "'s \<Rightarrow> int option \<times> 's"
  is_defensive_mode :: "'s \<Rightarrow> bool \<times> 's"

text \<open>
  \<open>class _MorpheusStub\<close>: every method returns its neutral value and touches nothing.
\<close>

definition MorpheusStub :: "'s morpheus_module" where
  "MorpheusStub = \<lparr>
     checkpoint = (\<lambda>s. (False, s)),
     yield_requested = (\<lambda>s. (False, s)),
     acknowledge_yield = (\<lambda>s. (False, s)),
     enter_critical_section = (\<lambda>s. ((), s)),
     exit_critical_section = (\<lambda>s. ((), s)),
     is_in_critical_section = (\<lambda>s. (False, s)),
     pressure_level = (\<lambda>s. (None, s)),
     is_defensive_mode = (\<lambda>s. (False, s)) \<rparr>"

subsection \<open>What the import statements bind\<close>

text \<open>
  The object bound to \<open>_morpheus\<close> is either an object with the eight methods above (the
  compiled extension, or a \<open>_MorpheusStub()\<close>), or the Python package \<open>morpheus\<close> of this
  repository. The package's \<open>__init__.py\<close> runs \<open>from _morpheus import (...)\<close> inside
  \<open>try: ... except ImportError: pass\<close>: the package holds the names \<open>checkpoint\<close>,
  \<open>yield_requested\<close>, \<open>acknowledge_yield\<close>, \<open>enter_critical_section\<close>,
  \<open>exit_critical_section\<close>, \<open>is_in_critical_section\<close> and \<open>pressure_level\<close> of the
  extension when the extension is installed, and none of them when it is not.
\<close>

datatype 's module_object =
  Instance "'s morpheus_module"
  | Package "'s morpheus_module option"

text \<open>
  Name resolution in the layout of the repository; the argument is the compiled extension,
  \<open>None\<close> where it is not installed. \<open>import _morpheus\<close> finds the extension or raises
  \<open>ImportError\<close> (\<open>None\<close>). \<open>import morpheus\<close> finds the package \<open>python/morpheus\<close>: for
  \<open>morpheus/asyncio.py\<close> it is the enclosing package, which is in the module table while
  its \<open>__init__\<close> runs, and for \<open>morpheus_asyncio.py\<close> it is the sibling directory. The
  package imports whether or not the extension is installed, because its \<open>__init__\<close>
  swallows the \<open>ImportError\<close>.
\<close>

definition import_module :: "'s morpheus_module option \<Rightarrow> string \<Rightarrow> 's module_object option" where
  "import_module extension name =
     (if name = ''_morpheus'' then map_option Instance extension
      else if name = ''morpheus'' then Some (Package extension)
      else None)"

text \<open>
  \<open>morpheus/asyncio.py\<close>, lines 14 to 23 and 36 to 37: \<open>import _morpheus\<close>, on
  \<open>ImportError\<close> \<open>import morpheus as _morpheus\<close>, on \<open>ImportError\<close> again \<open>None\<close>, and the
  stub where \<open>_morpheus is None\<close>.
\<close>

definition bind_morpheus :: "'s morpheus_module option \<Rightarrow> 's module_object" where
  "bind_morpheus extension =
     (let m = (case import_module extension ''_morpheus'' of
                 Some native \<Rightarrow> Some native
               | None \<Rightarrow> (case import_module extension ''morpheus'' of
                            Some legacy \<Rightarrow> Some legacy
                          | None \<Rightarrow> None))
      in case m of None \<Rightarrow> Instance MorpheusStub | Some found \<Rightarrow> found)"

text \<open>
  \<open>morpheus_asyncio.py\<close>, lines 28 to 41: \<open>import morpheus as _morpheus\<close>, and the stub on
  \<open>ImportError\<close>.
\<close>

definition bind_morpheus_asyncio :: "'s morpheus_module option \<Rightarrow> 's module_object" where
  "bind_morpheus_asyncio extension =
     (case import_module extension ''morpheus'' of
        Some found \<Rightarrow> found
      | None \<Rightarrow> Instance MorpheusStub)"

text \<open>
  What the attribute access \<open>_morpheus.checkpoint\<close> finds, and likewise for the other six
  names listed above: the method of the object itself, the name the package took from the
  extension, or nothing, which is an \<open>AttributeError\<close>. The name \<open>is_defensive_mode\<close> is
  not looked up through this function: the package binds it to the helper of
  \<open>morpheus/asyncio.py\<close>, not to the extension.
\<close>

fun runtime_methods :: "'s module_object \<Rightarrow> 's morpheus_module option" where
  "runtime_methods (Instance m) = Some m"
| "runtime_methods (Package extension) = extension"

subsection \<open>Observing the calls\<close>

text \<open>
  The claims speak about which methods of \<open>_morpheus\<close> are called, how often and in which
  order. The world a helper runs in therefore carries, next to the runtime state, the
  list of calls made on \<open>_morpheus\<close> so far, oldest first.
\<close>

datatype call =
  Checkpoint | YieldRequested | AcknowledgeYield | EnterCriticalSection
  | ExitCriticalSection | IsInCriticalSection | PressureLevel | IsDefensiveMode

record 's world =
  rt :: 's
  calls :: "call list"

definition invoke :: "call \<Rightarrow> ('s \<Rightarrow> 'r \<times> 's) \<Rightarrow> 's world \<Rightarrow> 'r \<times> 's world" where
  "invoke c method w =
     (let (r, s') = method (rt w) in (r, \<lparr>rt = s', calls = calls w @ [c]\<rparr>))"

subsection \<open>Coroutines\<close>

text \<open>
  An \<open>async def\<close> runs until it returns, raises, or reaches a suspension point. At a
  suspension point the event loop owns the thread; when it comes back it either resumes
  the coroutine or throws an exception into it (\<open>Task.cancel()\<close> throws
  \<open>CancelledError\<close>), and the world has been changed by whatever ran in between.
\<close>

datatype exc = CancelledError | NameError | AttributeError string | UserError string

datatype signal = Resume | Throw exc

datatype ('w, 'a) step =
  Returned 'a 'w
  | Raised exc 'w
  | Suspended 'w "signal \<Rightarrow> 'w \<Rightarrow> ('w, 'a) step"

text \<open>
  \<open>await asyncio.sleep(0)\<close>: one bare \<open>yield\<close> to the event loop. Resumed, the awaiting
  code goes on; an exception thrown in at the \<open>yield\<close> propagates out of the \<open>await\<close>.
\<close>

definition sleep0 :: "'w \<Rightarrow> ('w \<Rightarrow> ('w, 'a) step) \<Rightarrow> ('w, 'a) step" where
  "sleep0 w rest =
     Suspended w (\<lambda>sig w'. case sig of Resume \<Rightarrow> rest w' | Throw e \<Rightarrow> Raised e w')"

section \<open>Suspending helpers (morpheus/asyncio.py, morpheus\_asyncio.py)\<close>

text \<open>
  \<open>async def morpheus_checkpoint() -> bool\<close>, the same text in both files.
\<close>

definition morpheus_checkpoint :: "'s morpheus_module \<Rightarrow> 's world \<Rightarrow> ('s world, bool) step" where
  "morpheus_checkpoint m w =
     (let (requested, w1) = invoke Checkpoint (checkpoint m) w in
      if requested then
        (let (_, w2) = invoke AcknowledgeYield (acknowledge_yield m) w1 in
         sleep0 w2 (\<lambda>w3. Returned True w3))
      else Returned False w1)"

text \<open>
  \<open>async def force_yield() -> None\<close>, the same text in both files.
\<close>

definition force_yield :: "'s morpheus_module \<Rightarrow> 's world \<Rightarrow> ('s world, unit) step" where
  "force_yield m w =
     (let (_, w1) = invoke AcknowledgeYield (acknowledge_yield m) w in
      sleep0 w1 (\<lambda>w2. Returned () w2))"

text \<open>
  \<open>async def async_checkpoint()\<close> of \<open>morpheus/__init__.py\<close>. Its names \<open>checkpoint\<close> and
  \<open>yield_now_async\<close> come from \<open>from _morpheus import (...)\<close>, whose \<open>ImportError\<close> the
  package swallows: the names are then unbound and the call raises \<open>NameError\<close>.
  \<open>yield_now_async\<close> is a coroutine of the native extension; it is a parameter here.
\<close>

definition async_checkpoint ::
  "'s morpheus_module option \<Rightarrow> ('s world \<Rightarrow> ('s world, unit) step)
     \<Rightarrow> 's world \<Rightarrow> ('s world, unit) step" where
  "async_checkpoint import__morpheus yield_now_async w =
     (case import__morpheus of
        None \<Rightarrow> Raised NameError w
      | Some native \<Rightarrow>
          (let (requested, w1) = invoke Checkpoint (checkpoint native) w in
           if requested then yield_now_async w1 else Returned () w1))"

text \<open>
  Modelled from the spec: the native coroutine \<open>yield_now_async\<close>, which is not among the
  Python sources. Section 4.3 says what \<open>async_checkpoint\<close> does once \<open>checkpoint()\<close> is
  true: it calls \<open>acknowledge_yield()\<close> and suspends once.
\<close>

definition yield_now_async :: "'s morpheus_module \<Rightarrow> 's world \<Rightarrow> ('s world, unit) step" where
  "yield_now_async native w =
     (let (_, w1) = invoke AcknowledgeYield (acknowledge_yield native) w in
      sleep0 w1 (\<lambda>w2. Returned () w2))"

subsection \<open>The scoped critical section\<close>

text \<open>
  \<open>@asynccontextmanager async def morpheus_critical()\<close>. The generator runs up to its
  \<open>yield\<close> when the \<open>async with\<close> is entered: that is the call of
  \<open>enter_critical_section\<close>. When the body of the \<open>async with\<close> is over, the generator is
  resumed (the body ended normally) or the body's exception is thrown in at the \<open>yield\<close>
  (an error, or the \<open>CancelledError\<close> of a cancelled task); the \<open>yield\<close> stands in a
  \<open>try\<close> whose \<open>finally\<close> calls \<open>exit_critical_section\<close>, after which the generator ends or
  the exception goes on.
\<close>

definition morpheus_critical_enter :: "'s morpheus_module \<Rightarrow> 's world \<Rightarrow> 's world" where
  "morpheus_critical_enter m w =
     snd (invoke EnterCriticalSection (enter_critical_section m) w)"

definition morpheus_critical_finally :: "'s morpheus_module \<Rightarrow> 's world \<Rightarrow> 's world" where
  "morpheus_critical_finally m w =
     snd (invoke ExitCriticalSection (exit_critical_section m) w)"

primrec try_finally :: "('w \<Rightarrow> 'w) \<Rightarrow> ('w, 'a) step \<Rightarrow> ('w, 'a) step" where
  "try_finally fin (Returned a w) = Returned a (fin w)"
| "try_finally fin (Raised e w) = Raised e (fin w)"
| "try_finally fin (Suspended w k) = Suspended w (\<lambda>sig w'. try_finally fin (k sig w'))"

text \<open>
  \<open>async with morpheus_critical(): body\<close>
\<close>

definition async_with_morpheus_critical ::
  "'s morpheus_module \<Rightarrow> ('s world \<Rightarrow> ('s world, 'a) step) \<Rightarrow> 's world \<Rightarrow> ('s world, 'a) step" where
  "async_with_morpheus_critical m body w =
     try_finally (morpheus_critical_finally m) (body (morpheus_critical_enter m w))"

text \<open>
  \<open>k\<close> scopes, one inside the other, around a body.
\<close>

primrec nested_critical ::
  "nat \<Rightarrow> 's morpheus_module \<Rightarrow> ('s world \<Rightarrow> ('s world, 'a) step)
     \<Rightarrow> 's world \<Rightarrow> ('s world, 'a) step" where
  "nested_critical 0 m body = body"
| "nested_critical (Suc k) m body = async_with_morpheus_critical m (nested_critical k m body)"

text \<open>
  The event loop, as far as a coroutine sees it: at each suspension the rest of the
  program changes the world, then the loop resumes the coroutine or throws into it.
  \<open>run\<close> drives a coroutine through the suspensions a script describes.
\<close>

fun run :: "(('w \<Rightarrow> 'w) \<times> signal) list \<Rightarrow> ('w, 'a) step \<Rightarrow> ('w, 'a) step" where
  "run ((others, sig) # script) (Suspended w k) = run script (k sig (others w))"
| "run script st = st"

fun finished :: "('w, 'a) step \<Rightarrow> bool" where
  "finished (Suspended w k) = False"
| "finished st = True"

fun final_world :: "('w, 'a) step \<Rightarrow> 'w" where
  "final_world (Returned a w) = w"
| "final_world (Raised e w) = w"
| "final_world (Suspended w k) = w"

section \<open>Non-suspending helpers\<close>

text \<open>
  \<open>def is_kernel_pressured(threshold: int = 50) -> bool\<close>; an omitted argument is \<open>None\<close>.
\<close>

definition is_kernel_pressured ::
  "'s morpheus_module \<Rightarrow> int option \<Rightarrow> 's world \<Rightarrow> bool \<times> 's world" where
  "is_kernel_pressured m threshold_arg w =
     (let threshold = (case threshold_arg of None \<Rightarrow> 50 | Some t \<Rightarrow> t);
          (level, w1) = invoke PressureLevel (pressure_level m) w
      in ((case level of None \<Rightarrow> False | Some l \<Rightarrow> l > threshold), w1))"

text \<open>
  \<open>class AdaptiveCheckpointer\<close>. Python's \<open>x or 0\<close> is \<open>x\<close> unless \<open>x\<close> is \<open>None\<close> or \<open>0\<close>;
  \<open>//\<close> is floor division, as \<open>div\<close> on \<open>int\<close> is.
\<close>

record AdaptiveCheckpointer =
  min_interval :: int
  max_interval :: int
  last_check :: int

definition AdaptiveCheckpointer_init :: "int option \<Rightarrow> int option \<Rightarrow> AdaptiveCheckpointer" where
  "AdaptiveCheckpointer_init min_arg max_arg =
     \<lparr> min_interval = (case min_arg of None \<Rightarrow> 100 | Some v \<Rightarrow> v),
       max_interval = (case max_arg of None \<Rightarrow> 10000 | Some v \<Rightarrow> v),
       last_check = 0 \<rparr>"

definition or_zero :: "int option \<Rightarrow> int" where
  "or_zero x = (case x of None \<Rightarrow> 0 | Some v \<Rightarrow> if v = 0 then 0 else v)"

definition interval :: "AdaptiveCheckpointer \<Rightarrow> int \<Rightarrow> int" where
  "interval self pressure =
     max_interval self - ((max_interval self - min_interval self) * pressure) div 100"

definition should_check ::
  "'s morpheus_module \<Rightarrow> AdaptiveCheckpointer \<Rightarrow> int \<Rightarrow> 's world
     \<Rightarrow> bool \<times> AdaptiveCheckpointer \<times> 's world" where
  "should_check m self iteration w =
     (let (level, w1) = invoke PressureLevel (pressure_level m) w;
          pressure = or_zero level
      in if iteration - last_check self \<ge> interval self pressure
         then (True, self\<lparr>last_check := iteration\<rparr>, w1)
         else (False, self, w1))"

section \<open>The helpers on the object that was bound\<close>

text \<open>
  A call \<open>_morpheus.name()\<close> first looks the name up on the bound object. Where the name is
  missing the statement raises \<open>AttributeError\<close> and nothing else happens; otherwise the
  method runs as above. An object has all of the seven names or none of them, so a helper
  either stops at its first call on \<open>_morpheus\<close> or runs as it does on the record of
  methods.
\<close>

definition call_bound ::
  "'s module_object \<Rightarrow> string \<Rightarrow> call \<Rightarrow> ('s morpheus_module \<Rightarrow> 's \<Rightarrow> 'r \<times> 's)
     \<Rightarrow> 's world \<Rightarrow> exc + 'r \<times> 's world" where
  "call_bound obj name c method w =
     (case runtime_methods obj of
        None \<Rightarrow> Inl (AttributeError name)
      | Some m \<Rightarrow> Inr (invoke c (method m) w))"

definition morpheus_checkpoint_bound ::
  "'s module_object \<Rightarrow> 's world \<Rightarrow> ('s world, bool) step" where
  "morpheus_checkpoint_bound obj w =
     (case runtime_methods obj of
        None \<Rightarrow> Raised (AttributeError ''checkpoint'') w
      | Some m \<Rightarrow> morpheus_checkpoint m w)"

definition async_with_morpheus_critical_bound ::
  "'s module_object \<Rightarrow> ('s world \<Rightarrow> ('s world, 'a) step) \<Rightarrow> 's world \<Rightarrow> ('s world, 'a) step" where
  "async_with_morpheus_critical_bound obj body w =
     (case runtime_methods obj of
        None \<Rightarrow> Raised (AttributeError ''enter_critical_section'') w
      | Some m \<Rightarrow> async_with_morpheus_critical m body w)"

section \<open>The Shared Control Block layout (\_morpheus\_shared.py)\<close>

text \<open>
  \<open>MorpheusScb\<close> is a \<open>ctypes.Structure\<close>: a list of named fields and a \<open>_pack_\<close>. The
  offsets that \<open>verify_offsets\<close> reads are the ones \<open>ctypes\<close> computes from that list: each
  field is placed at the next multiple of its alignment (its type's alignment, capped by
  \<open>_pack_\<close>), and the size of the structure is rounded up to the largest field alignment.
  \<open>c_uint32\<close> has size and alignment 4, \<open>c_uint64\<close> size and alignment 8, and an array
  \<open>t * n\<close> has \<open>n\<close> times the size of \<open>t\<close> and its alignment.
\<close>

datatype ctype = c_uint32 | c_uint64 | Array ctype nat

fun sizeof_ctype :: "ctype \<Rightarrow> nat" where
  "sizeof_ctype c_uint32 = 4"
| "sizeof_ctype c_uint64 = 8"
| "sizeof_ctype (Array t n) = n * sizeof_ctype t"

fun alignment :: "ctype \<Rightarrow> nat" where
  "alignment c_uint32 = 4"
| "alignment c_uint64 = 8"
| "alignment (Array t n) = alignment t"

record Structure =
  struct_pack :: "nat option"
  struct_fields :: "(string \<times> ctype) list"

definition field_alignment :: "nat option \<Rightarrow> ctype \<Rightarrow> nat" where
  "field_alignment pk t = (case pk of None \<Rightarrow> alignment t | Some p \<Rightarrow> min p (alignment t))"

definition round_up :: "nat \<Rightarrow> nat \<Rightarrow> nat" where
  "round_up n a = ((n + a - 1) div a) * a"

fun place_fields :: "nat option \<Rightarrow> nat \<Rightarrow> (string \<times> ctype) list \<Rightarrow> (string \<times> nat) list \<times> nat" where
  "place_fields pk off [] = ([], off)"
| "place_fields pk off ((name, t) # rest) =
     (let start = round_up off (field_alignment pk t);
          (placed, finish) = place_fields pk (start + sizeof_ctype t) rest
      in ((name, start) # placed, finish))"

definition structure_alignment :: "Structure \<Rightarrow> nat" where
  "structure_alignment st =
     fold (\<lambda>(name, t) a. max a (field_alignment (struct_pack st) t)) (struct_fields st) 1"

text \<open>
  \<open>getattr(scb, field_name).offset\<close>; \<open>None\<close> when the structure has no such field.
\<close>

definition field_offset :: "Structure \<Rightarrow> string \<Rightarrow> nat option" where
  "field_offset st name = map_of (fst (place_fields (struct_pack st) 0 (struct_fields st))) name"

definition sizeof :: "Structure \<Rightarrow> nat" where
  "sizeof st = round_up (snd (place_fields (struct_pack st) 0 (struct_fields st))) (structure_alignment st)"

definition MorpheusScb :: Structure where
  "MorpheusScb = \<lparr>
     struct_pack = Some 8,
     struct_fields = [
       (''preempt_seq'', c_uint64),
       (''budget_remaining_ns'', c_uint64),
       (''kernel_pressure_level'', c_uint32),
       (''worker_state'', c_uint32),
       (''_reserved0'', Array c_uint64 5),
       (''is_in_critical_section'', c_uint32),
       (''escapable'', c_uint32),
       (''last_ack_seq'', c_uint64),
       (''runtime_priority'', c_uint32),
       (''last_yield_reason'', c_uint32),
       (''_reserved1'', Array c_uint64 1),
       (''escalation_policy'', c_uint32),
       (''_pad'', c_uint32),
       (''_reserved2'', Array c_uint64 3)] \<rparr>"

text \<open>
  \<open>def verify_offsets()\<close>: the \<open>expected\<close> dictionary in its insertion order, the loop
  that raises \<open>AssertionError\<close> at the first mismatch, the size check, \<open>return True\<close>.
\<close>

datatype verify_error =
  AttributeError string
  | Offset_mismatch string nat nat
  | Size_mismatch nat

definition expected :: "(string \<times> nat) list" where
  "expected = [
     (''preempt_seq'', 0),
     (''budget_remaining_ns'', 8),
     (''kernel_pressure_level'', 16),
     (''worker_state'', 20),
     (''is_in_critical_section'', 64),
     (''escapable'', 68),
     (''last_ack_seq'', 72),
     (''runtime_priority'', 80),
     (''last_yield_reason'', 84),
     (''escalation_policy'', 96)]"

fun check_offsets :: "Structure \<Rightarrow> (string \<times> nat) list \<Rightarrow> verify_error + unit" where
  "check_offsets scb [] = Inr ()"
| "check_offsets scb ((field_name, expected_offset) # rest) =
     (case field_offset scb field_name of
        None \<Rightarrow> Inl (AttributeError field_name)
      | Some actual_offset \<Rightarrow>
          if actual_offset \<noteq> expected_offset
          then Inl (Offset_mismatch field_name expected_offset actual_offset)
          else check_offsets scb rest)"

definition verify_offsets :: "verify_error + bool" where
  "verify_offsets =
     (let scb = MorpheusScb in
      case check_offsets scb expected of
        Inl err \<Rightarrow> Inl err
      | Inr _ \<Rightarrow>
          if sizeof scb \<noteq> 128 then Inl (Size_mismatch (sizeof scb)) else Inr True)"

section \<open>A native runtime to run the helpers against\<close>

text \<open>
  Modelled from the spec: the native extension behind \<open>_morpheus\<close>, which is not among the
  Python sources. Sections 4.3 to 4.5, 6.2 and 7 give its operations on the calling
  thread's worker slot: \<open>checkpoint()\<close> is true iff \<open>preempt_seq\<close> differs from
  \<open>last_ack_seq\<close> (or the runtime is in defensive mode) and no critical section is open;
  \<open>acknowledge_yield()\<close> copies \<open>preempt_seq\<close> into \<open>last_ack_seq\<close> and tells whether a
  yield was outstanding; entering a critical section increments the re-entrancy count,
  leaving one decrements it and clamps at zero; on a thread that is bound to no slot every
  operation returns its neutral value. Only the fields these operations read or write are
  kept.
\<close>

record worker_slot =
  preempt_seq :: nat
  last_ack_seq :: nat
  kernel_pressure_level :: int
  critical_depth :: nat
  defensive :: bool

definition native_module :: "worker_slot option morpheus_module" where
  "native_module = \<lparr>
     checkpoint = (\<lambda>s. (case s of None \<Rightarrow> False
        | Some b \<Rightarrow> (defensive b \<or> preempt_seq b \<noteq> last_ack_seq b) \<and> critical_depth b = 0, s)),
     yield_requested = (\<lambda>s. (case s of None \<Rightarrow> False
        | Some b \<Rightarrow> preempt_seq b \<noteq> last_ack_seq b, s)),
     acknowledge_yield = (\<lambda>s. case s of None \<Rightarrow> (False, None)
        | Some b \<Rightarrow> (preempt_seq b \<noteq> last_ack_seq b, Some (b\<lparr>last_ack_seq := preempt_seq b\<rparr>))),
     enter_critical_section = (\<lambda>s. ((), map_option (\<lambda>b. b\<lparr>critical_depth := critical_depth b + 1\<rparr>) s)),
     exit_critical_section = (\<lambda>s. ((), map_option (\<lambda>b. b\<lparr>critical_depth := critical_depth b - 1\<rparr>) s)),
     is_in_critical_section = (\<lambda>s. (case s of None \<Rightarrow> False | Some b \<Rightarrow> critical_depth b > 0, s)),
     pressure_level = (\<lambda>s. (map_option kernel_pressure_level s, s)),
     is_defensive_mode = (\<lambda>s. (case s of None \<Rightarrow> False | Some b \<Rightarrow> defensive b, s)) \<rparr>"

subsection \<open>Example worlds\<close>

text \<open>
  A bound worker with nothing pending, and the same worker after the kernel has advanced
  \<open>preempt_seq\<close>; no call has been made on \<open>_morpheus\<close> yet.
\<close>

definition quiet_slot :: worker_slot where
  "quiet_slot = \<lparr>preempt_seq = 0, last_ack_seq = 0, kernel_pressure_level = 0,
                  critical_depth = 0, defensive = False\<rparr>"

definition quiet_world :: "worker_slot option world" where
  "quiet_world = \<lparr>rt = Some quiet_slot, calls = []\<rparr>"

definition pending_world :: "worker_slot option world" where
  "pending_world = \<lparr>rt = Some (quiet_slot\<lparr>preempt_seq := 1\<rparr>), calls = []\<rparr>"

text \<open>
  The same worker while the kernel reports pressure 50, and a thread bound to no slot.
\<close>

definition pressured_world :: "worker_slot option world" where
  "pressured_world = \<lparr>rt = Some (quiet_slot\<lparr>kernel_pressure_level := 50\<rparr>), calls = []\<rparr>"

definition unbound_world :: "worker_slot option world" where
  "unbound_world = \<lparr>rt = None, calls = []\<rparr>"

section \<open>Results\<close>

subsection \<open>Calls on the module\<close>

lemma invoke_eq:
  "invoke c f w = (fst (f (rt w)), \<lparr>rt = snd (f (rt w)), calls = calls w @ [c]\<rparr>)"
  by (simp add: invoke_def split: prod.splits)

subsection \<open>Suspending checkpoint and forced yield\<close>

text \<open>
  C1. The suspending checkpoint first calls \<open>checkpoint()\<close>. When that is false it returns
  at once: it is not suspended and \<open>checkpoint\<close> is the only call it made. When that is
  true it is suspended exactly once, and at the suspension \<open>acknowledge_yield()\<close> has
  already been called, so the acknowledgement is in the runtime state whatever the event
  loop does next: resumed, the helper returns; cancelled, \<open>CancelledError\<close> leaves it and
  nothing more is called. This holds for \<open>morpheus_checkpoint\<close> over every module object,
  and for \<open>async_checkpoint\<close> with the native \<open>yield_now_async\<close> as the spec gives it.
\<close>

theorem suspending_checkpoint_acknowledges_before_suspension:
  "(\<not> fst (checkpoint m (rt w)) \<longrightarrow>
      morpheus_checkpoint m w
        = Returned False \<lparr>rt = snd (checkpoint m (rt w)), calls = calls w @ [Checkpoint]\<rparr>)
   \<and> (fst (checkpoint m (rt w)) \<longrightarrow>
      (case morpheus_checkpoint m w of
         Suspended w2 k \<Rightarrow>
           rt w2 = snd (acknowledge_yield m (snd (checkpoint m (rt w))))
           \<and> calls w2 = calls w @ [Checkpoint, AcknowledgeYield]
           \<and> (\<forall>w'. k Resume w' = Returned True w')
           \<and> (\<forall>e w'. k (Throw e) w' = Raised e w')
       | _ \<Rightarrow> False))
   \<and> (\<not> fst (checkpoint m (rt w)) \<longrightarrow>
      async_checkpoint (Some m) (yield_now_async m) w
        = Returned () \<lparr>rt = snd (checkpoint m (rt w)), calls = calls w @ [Checkpoint]\<rparr>)
   \<and> (fst (checkpoint m (rt w)) \<longrightarrow>
      (case async_checkpoint (Some m) (yield_now_async m) w of
         Suspended w2 k \<Rightarrow>
           rt w2 = snd (acknowledge_yield m (snd (checkpoint m (rt w))))
           \<and> calls w2 = calls w @ [Checkpoint, AcknowledgeYield]
           \<and> (\<forall>w'. k Resume w' = Returned () w')
           \<and> (\<forall>e w'. k (Throw e) w' = Raised e w')
       | _ \<Rightarrow> False))"
  by (simp add: morpheus_checkpoint_def async_checkpoint_def yield_now_async_def
      sleep0_def invoke_eq)

theorem suspending_checkpoint_witness:
  "fst (checkpoint native_module (rt pending_world))
   \<and> (case morpheus_checkpoint native_module pending_world of
         Suspended w2 k \<Rightarrow>
           rt w2 = Some (quiet_slot\<lparr>preempt_seq := 1, last_ack_seq := 1\<rparr>)
           \<and> calls w2 = [Checkpoint, AcknowledgeYield]
           \<and> k Resume w2 = Returned True w2
           \<and> k (Throw CancelledError) w2 = Raised CancelledError w2
       | _ \<Rightarrow> False)
   \<and> (case async_checkpoint (Some native_module) (yield_now_async native_module) pending_world of
         Suspended w2 k \<Rightarrow>
           rt w2 = Some (quiet_slot\<lparr>preempt_seq := 1, last_ack_seq := 1\<rparr>)
           \<and> calls w2 = [Checkpoint, AcknowledgeYield]
           \<and> k (Throw CancelledError) w2 = Raised CancelledError w2
       | _ \<Rightarrow> False)
   \<and> \<not> fst (checkpoint native_module (rt quiet_world))
   \<and> morpheus_checkpoint native_module quiet_world
        = Returned False \<lparr>rt = Some quiet_slot, calls = [Checkpoint]\<rparr>
   \<and> async_checkpoint (Some native_module) (yield_now_async native_module) quiet_world
        = Returned () \<lparr>rt = Some quiet_slot, calls = [Checkpoint]\<rparr>"
proof -
  have p: "fst (checkpoint native_module (rt pending_world))"
    by (simp add: native_module_def pending_world_def quiet_slot_def)
  have q: "\<not> fst (checkpoint native_module (rt quiet_world))"
    by (simp add: native_module_def quiet_world_def quiet_slot_def)
  have ack: "snd (acknowledge_yield native_module (snd (checkpoint native_module (rt pending_world))))
               = Some (quiet_slot\<lparr>preempt_seq := 1, last_ack_seq := 1\<rparr>)"
    by (simp add: native_module_def pending_world_def quiet_slot_def)
  have same: "snd (checkpoint native_module (rt quiet_world)) = Some quiet_slot"
    by (simp add: native_module_def quiet_world_def)
  have c: "calls pending_world = []" "calls quiet_world = []"
    by (simp_all add: pending_world_def quiet_world_def)
  from suspending_checkpoint_acknowledges_before_suspension [of native_module pending_world]
    suspending_checkpoint_acknowledges_before_suspension [of native_module quiet_world]
    p q ack same c
  show ?thesis
    by (auto split: step.splits)
qed

text \<open>
  C7. \<open>force_yield()\<close> calls \<open>acknowledge_yield()\<close> and is then suspended, for every module
  object and every runtime state; after that one suspension it returns when resumed and
  lets the exception through when one is thrown in, with no further call and no further
  suspension.
\<close>

theorem force_yield_always_acknowledges_then_suspends_once:
  "case force_yield m w of
     Suspended w1 k \<Rightarrow>
       rt w1 = snd (acknowledge_yield m (rt w))
       \<and> calls w1 = calls w @ [AcknowledgeYield]
       \<and> (\<forall>w'. k Resume w' = Returned () w')
       \<and> (\<forall>e w'. k (Throw e) w' = Raised e w')
   | _ \<Rightarrow> False"
  by (simp add: force_yield_def sleep0_def invoke_eq)

subsection \<open>The scoped critical section\<close>

lemma enter_rt: "rt (morpheus_critical_enter m w) = snd (enter_critical_section m (rt w))"
  by (simp add: morpheus_critical_enter_def invoke_eq)

lemma enter_calls: "calls (morpheus_critical_enter m w) = calls w @ [EnterCriticalSection]"
  by (simp add: morpheus_critical_enter_def invoke_eq)

lemma finally_rt: "rt (morpheus_critical_finally m w) = snd (exit_critical_section m (rt w))"
  by (simp add: morpheus_critical_finally_def invoke_eq)

lemma finally_calls: "calls (morpheus_critical_finally m w) = calls w @ [ExitCriticalSection]"
  by (simp add: morpheus_critical_finally_def invoke_eq)

text \<open>
  The \<open>finally\<close> block waits for the end of the body, however many times the event loop
  suspends and resumes it on the way.
\<close>

lemma run_try_finally: "run script (try_finally fin st) = try_finally fin (run script st)"
proof (induction script arbitrary: st)
  case Nil
  then show ?case by (cases st) simp_all
next
  case (Cons step script)
  obtain others sig where step: "step = (others, sig)" by (cases step)
  show ?case
  proof (cases st)
    case (Suspended w k)
    with step Cons.IH show ?thesis by simp
  qed (simp_all add: step)
qed

lemma try_finally_twice:
  "try_finally f (try_finally g st) = try_finally (\<lambda>w. f (g w)) st"
proof (induction st)
  case (Suspended w k)
  have "try_finally f (try_finally g (k sig w')) = try_finally (\<lambda>w. f (g w)) (k sig w')"
    for sig w'
    by (rule Suspended.IH) (rule rangeI)+
  then show ?case by simp
qed simp_all

lemma try_finally_id: "try_finally (\<lambda>w. w) st = st"
proof (induction st)
  case (Suspended w k)
  have "try_finally (\<lambda>w. w) (k sig w') = k sig w'" for sig w'
    by (rule Suspended.IH) (rule rangeI)+
  then show ?case by simp
qed simp_all

lemma finished_try_finally: "finished (try_finally fin st) = finished st"
  by (cases st) simp_all

lemma final_world_try_finally:
  "finished st \<Longrightarrow> final_world (try_finally fin st) = fin (final_world st)"
  by (cases st) simp_all

lemma nested_critical_unfold:
  "nested_critical n m body w =
     try_finally (morpheus_critical_finally m ^^ n) (body ((morpheus_critical_enter m ^^ n) w))"
proof (induction n arbitrary: w)
  case 0
  show ?case by (simp add: try_finally_id id_def)
next
  case (Suc n)
  have "nested_critical (Suc n) m body w =
          try_finally (morpheus_critical_finally m)
            (nested_critical n m body (morpheus_critical_enter m w))"
    by (simp add: async_with_morpheus_critical_def)
  also have "\<dots> =
      try_finally (\<lambda>w. morpheus_critical_finally m ((morpheus_critical_finally m ^^ n) w))
        (body ((morpheus_critical_enter m ^^ n) (morpheus_critical_enter m w)))"
    by (simp add: Suc.IH try_finally_twice)
  also have "\<dots> = try_finally (morpheus_critical_finally m ^^ Suc n)
                     (body ((morpheus_critical_enter m ^^ Suc n) w))"
    by (simp add: funpow_swap1 comp_def)
  finally show ?case .
qed

lemma enter_funpow_calls:
  "calls ((morpheus_critical_enter m ^^ n) w) = calls w @ replicate n EnterCriticalSection"
  by (induction n) (simp_all add: enter_calls replicate_append_same)

lemma finally_funpow_calls:
  "calls ((morpheus_critical_finally m ^^ n) w) = calls w @ replicate n ExitCriticalSection"
  by (induction n) (simp_all add: finally_calls replicate_append_same)

lemma native_enter_step:
  "map_option critical_depth (snd (enter_critical_section native_module s))
     = map_option (\<lambda>d. d + 1) (map_option critical_depth s)"
  by (cases s) (simp_all add: native_module_def)

lemma native_exit_step:
  "map_option critical_depth (snd (exit_critical_section native_module s))
     = map_option (\<lambda>d. d - 1) (map_option critical_depth s)"
  by (cases s) (simp_all add: native_module_def)

lemma native_enter_depth:
  "map_option critical_depth (rt ((morpheus_critical_enter native_module ^^ n) w))
     = map_option (\<lambda>d. d + n) (map_option critical_depth (rt w))"
  by (induction n)
    (simp_all add: enter_rt native_enter_step option.map_comp comp_def option.map_ident)

lemma native_finally_depth:
  "map_option critical_depth (rt ((morpheus_critical_finally native_module ^^ n) w))
     = map_option (\<lambda>d. d - n) (map_option critical_depth (rt w))"
  by (induction n)
    (simp_all add: finally_rt native_exit_step option.map_comp comp_def option.map_ident)

lemma nested_native_depth:
  assumes fin: "finished (run script (body ((morpheus_critical_enter native_module ^^ n) w)))"
    and bal: "map_option critical_depth
                (rt (final_world (run script (body ((morpheus_critical_enter native_module ^^ n) w)))))
              = map_option critical_depth (rt ((morpheus_critical_enter native_module ^^ n) w))"
  shows "finished (run script (nested_critical n native_module body w))
       \<and> map_option critical_depth (rt (final_world (run script (nested_critical n native_module body w))))
         = map_option critical_depth (rt w)"
proof -
  let ?rb = "run script (body ((morpheus_critical_enter native_module ^^ n) w))"
  have r: "run script (nested_critical n native_module body w)
             = try_finally (morpheus_critical_finally native_module ^^ n) ?rb"
    by (simp add: nested_critical_unfold run_try_finally)
  have "map_option critical_depth (rt (final_world (run script (nested_critical n native_module body w))))
          = map_option (\<lambda>d. d - n) (map_option critical_depth (rt (final_world ?rb)))"
    by (simp add: r final_world_try_finally [OF fin] native_finally_depth)
  also have "\<dots> = map_option (\<lambda>d. d - n) (map_option (\<lambda>d. d + n) (map_option critical_depth (rt w)))"
    by (simp add: bal native_enter_depth)
  also have "\<dots> = map_option critical_depth (rt w)"
    by (simp add: option.map_comp comp_def option.map_ident)
  finally show ?thesis by (simp add: r finished_try_finally fin)
qed


lemma quiet_enter:
  "morpheus_critical_enter native_module quiet_world
     = \<lparr>rt = Some (quiet_slot\<lparr>critical_depth := 1\<rparr>), calls = [EnterCriticalSection]\<rparr>"
  by (simp add: morpheus_critical_enter_def invoke_eq native_module_def quiet_world_def quiet_slot_def)

lemma quiet_finally:
  "morpheus_critical_finally native_module
       \<lparr>rt = Some (quiet_slot\<lparr>critical_depth := 1\<rparr>), calls = [EnterCriticalSection]\<rparr>
     = \<lparr>rt = Some quiet_slot, calls = [EnterCriticalSection, ExitCriticalSection]\<rparr>"
  by (simp add: morpheus_critical_finally_def invoke_eq native_module_def quiet_slot_def)

text \<open>
  C2. Entering the scope calls \<open>enter_critical_section\<close> once, before the body starts.
  However the body ends, by returning, by an error raised inside it, or by the
  \<open>CancelledError\<close> thrown into it at one of its suspension points, the scope ends the same
  way after calling \<open>exit_critical_section\<close> once; as long as the body is suspended the
  scope is suspended too and has not called it. With \<open>n\<close> scopes nested there are \<open>n\<close>
  calls of each, and on the native runtime as the spec gives it the re-entrancy count is
  back at its prior value whenever the body itself left the count as it found it.
\<close>

theorem critical_scope_enters_once_exits_once:
  fixes m :: "'s morpheus_module"
    and body :: "'s world \<Rightarrow> ('s world, 'a) step"
    and nbody :: "worker_slot option world \<Rightarrow> (worker_slot option world, 'b) step"
  shows
  "rt (morpheus_critical_enter m w) = snd (enter_critical_section m (rt w))
   \<and> calls (morpheus_critical_enter m w) = calls w @ [EnterCriticalSection]
   \<and> rt (morpheus_critical_finally m w') = snd (exit_critical_section m (rt w'))
   \<and> calls (morpheus_critical_finally m w') = calls w' @ [ExitCriticalSection]
   \<and> (\<forall>a wb. run script (body (morpheus_critical_enter m w)) = Returned a wb \<longrightarrow>
         run script (async_with_morpheus_critical m body w)
           = Returned a (morpheus_critical_finally m wb))
   \<and> (\<forall>e wb. run script (body (morpheus_critical_enter m w)) = Raised e wb \<longrightarrow>
         run script (async_with_morpheus_critical m body w)
           = Raised e (morpheus_critical_finally m wb))
   \<and> (\<forall>wb k. run script (body (morpheus_critical_enter m w)) = Suspended wb k \<longrightarrow>
         (\<exists>k'. run script (async_with_morpheus_critical m body w) = Suspended wb k'))
   \<and> (\<forall>a wb. run script (body ((morpheus_critical_enter m ^^ n) w)) = Returned a wb \<longrightarrow>
         run script (nested_critical n m body w)
           = Returned a ((morpheus_critical_finally m ^^ n) wb))
   \<and> (\<forall>e wb. run script (body ((morpheus_critical_enter m ^^ n) w)) = Raised e wb \<longrightarrow>
         run script (nested_critical n m body w)
           = Raised e ((morpheus_critical_finally m ^^ n) wb))
   \<and> calls ((morpheus_critical_enter m ^^ n) w) = calls w @ replicate n EnterCriticalSection
   \<and> calls ((morpheus_critical_finally m ^^ n) w') = calls w' @ replicate n ExitCriticalSection
   \<and> (finished (run nscript (nbody ((morpheus_critical_enter native_module ^^ n) nw)))
        \<and> map_option critical_depth
            (rt (final_world (run nscript (nbody ((morpheus_critical_enter native_module ^^ n) nw)))))
          = map_option critical_depth (rt ((morpheus_critical_enter native_module ^^ n) nw))
      \<longrightarrow> finished (run nscript (nested_critical n native_module nbody nw))
        \<and> map_option critical_depth
            (rt (final_world (run nscript (nested_critical n native_module nbody nw))))
          = map_option critical_depth (rt nw))"
proof -
  have scope: "run script (async_with_morpheus_critical m body w)
      = try_finally (morpheus_critical_finally m) (run script (body (morpheus_critical_enter m w)))"
    by (simp add: async_with_morpheus_critical_def run_try_finally)
  have nest: "run script (nested_critical n m body w)
      = try_finally (morpheus_critical_finally m ^^ n)
          (run script (body ((morpheus_critical_enter m ^^ n) w)))"
    by (simp add: nested_critical_unfold run_try_finally)
  have c5: "\<forall>a wb. run script (body (morpheus_critical_enter m w)) = Returned a wb \<longrightarrow>
         run script (async_with_morpheus_critical m body w)
           = Returned a (morpheus_critical_finally m wb)"
    by (simp add: scope)
  have c6: "\<forall>e wb. run script (body (morpheus_critical_enter m w)) = Raised e wb \<longrightarrow>
         run script (async_with_morpheus_critical m body w)
           = Raised e (morpheus_critical_finally m wb)"
    by (simp add: scope)
  have c7: "\<forall>wb k. run script (body (morpheus_critical_enter m w)) = Suspended wb k \<longrightarrow>
         (\<exists>k'. run script (async_with_morpheus_critical m body w) = Suspended wb k')"
    by (simp add: scope)
  have c8: "\<forall>a wb. run script (body ((morpheus_critical_enter m ^^ n) w)) = Returned a wb \<longrightarrow>
         run script (nested_critical n m body w)
           = Returned a ((morpheus_critical_finally m ^^ n) wb)"
    by (simp add: nest)
  have c9: "\<forall>e wb. run script (body ((morpheus_critical_enter m ^^ n) w)) = Raised e wb \<longrightarrow>
         run script (nested_critical n m body w)
           = Raised e ((morpheus_critical_finally m ^^ n) wb)"
    by (simp add: nest)
  note c12 = nested_native_depth [of nscript nbody n nw]
  from c5 c6 c7 c8 c9 c12 show ?thesis
    by (simp only: enter_rt enter_calls finally_rt finally_calls enter_funpow_calls
        finally_funpow_calls) blast
qed


theorem critical_scope_witness:
  "run [] (async_with_morpheus_critical native_module (\<lambda>w. Returned () w) quiet_world)
     = Returned () \<lparr>rt = Some quiet_slot, calls = [EnterCriticalSection, ExitCriticalSection]\<rparr>
   \<and> run [] (async_with_morpheus_critical native_module
              (\<lambda>w. Raised (UserError ''boom'') w :: (worker_slot option world, unit) step) quiet_world)
     = Raised (UserError ''boom'')
         \<lparr>rt = Some quiet_slot, calls = [EnterCriticalSection, ExitCriticalSection]\<rparr>
   \<and> run [(\<lambda>w. w, Throw CancelledError)]
         (async_with_morpheus_critical native_module
            (\<lambda>w. sleep0 w (\<lambda>w'. Returned () w')) quiet_world)
     = Raised CancelledError
         \<lparr>rt = Some quiet_slot, calls = [EnterCriticalSection, ExitCriticalSection]\<rparr>
   \<and> finished (run [] (nested_critical 2 native_module (\<lambda>w. Returned () w) quiet_world))
   \<and> map_option critical_depth
        (rt (final_world (run [] (nested_critical 2 native_module (\<lambda>w. Returned () w) quiet_world))))
      = Some 0"
proof -
  let ?w1 = "\<lparr>rt = Some (quiet_slot\<lparr>critical_depth := 1\<rparr>), calls = [EnterCriticalSection]\<rparr>"
  have normal: "run [] ((\<lambda>w. Returned () w) (morpheus_critical_enter native_module quiet_world))
                  = Returned () ?w1"
    by (simp add: quiet_enter)
  have error: "run [] ((\<lambda>w. Raised (UserError ''boom'') w :: (worker_slot option world, unit) step)
                  (morpheus_critical_enter native_module quiet_world))
                  = Raised (UserError ''boom'') ?w1"
    by (simp add: quiet_enter)
  have cancelled: "run [(\<lambda>w. w, Throw CancelledError)]
                     ((\<lambda>w. sleep0 w (\<lambda>w'. Returned () w'))
                        (morpheus_critical_enter native_module quiet_world))
                  = Raised CancelledError ?w1"
    by (simp add: quiet_enter sleep0_def)
  have balanced: "finished (run [] ((\<lambda>w. Returned () w)
                     ((morpheus_critical_enter native_module ^^ 2) quiet_world)))
      \<and> map_option critical_depth (rt (final_world (run [] ((\<lambda>w. Returned () w)
                     ((morpheus_critical_enter native_module ^^ 2) quiet_world)))))
        = map_option critical_depth (rt ((morpheus_critical_enter native_module ^^ 2) quiet_world))"
    by simp
  have depth0: "map_option critical_depth (rt quiet_world) = Some 0"
    by (simp add: quiet_world_def quiet_slot_def)
  note scope = critical_scope_enters_once_exits_once
  from scope [where m = native_module and w = quiet_world and script = "[]"
        and body = "\<lambda>w. Returned () w"] normal
  have a: "run [] (async_with_morpheus_critical native_module (\<lambda>w. Returned () w) quiet_world)
     = Returned () (morpheus_critical_finally native_module ?w1)"
    by blast
  from scope [where m = native_module and w = quiet_world and script = "[]"
        and body = "\<lambda>w. Raised (UserError ''boom'') w :: (worker_slot option world, unit) step"] error
  have b: "run [] (async_with_morpheus_critical native_module
              (\<lambda>w. Raised (UserError ''boom'') w :: (worker_slot option world, unit) step) quiet_world)
     = Raised (UserError ''boom'') (morpheus_critical_finally native_module ?w1)"
    by blast
  from scope [where m = native_module and w = quiet_world
        and script = "[(\<lambda>w. w, Throw CancelledError)]"
        and body = "\<lambda>w. sleep0 w (\<lambda>w'. Returned () w')"] cancelled
  have c: "run [(\<lambda>w. w, Throw CancelledError)]
         (async_with_morpheus_critical native_module
            (\<lambda>w. sleep0 w (\<lambda>w'. Returned () w')) quiet_world)
     = Raised CancelledError (morpheus_critical_finally native_module ?w1)"
    by blast
  from scope [where n = 2 and nscript = "[]" and nw = quiet_world
        and nbody = "\<lambda>w. Returned () w"] balanced
  have d: "finished (run [] (nested_critical 2 native_module (\<lambda>w. Returned () w) quiet_world))
   \<and> map_option critical_depth
        (rt (final_world (run [] (nested_critical 2 native_module (\<lambda>w. Returned () w) quiet_world))))
      = map_option critical_depth (rt quiet_world)"
    by blast
  from a b c d show ?thesis
    by (simp only: quiet_finally depth0)
qed

subsection \<open>Stub degradation\<close>

text \<open>
  The stub itself does what is asked of it: on a \<open>_MorpheusStub()\<close> every method returns
  its neutral value and leaves the runtime state alone, the scope only runs its body, and
  the helpers return instead of raising.
\<close>

lemma stub_is_neutral:
  fixes s :: 's and w :: "'s world" and body :: "'s world \<Rightarrow> ('s world, 'a) step"
  shows
  "checkpoint MorpheusStub s = (False, s)
   \<and> yield_requested MorpheusStub s = (False, s)
   \<and> acknowledge_yield MorpheusStub s = (False, s)
   \<and> pressure_level MorpheusStub s = (None, s)
   \<and> is_in_critical_section MorpheusStub s = (False, s)
   \<and> is_defensive_mode MorpheusStub s = (False, s)
   \<and> enter_critical_section MorpheusStub s = ((), s)
   \<and> exit_critical_section MorpheusStub s = ((), s)
   \<and> run script (async_with_morpheus_critical MorpheusStub body w)
       = try_finally (\<lambda>w'. w'\<lparr>calls := calls w' @ [ExitCriticalSection]\<rparr>)
           (run script (body (w\<lparr>calls := calls w @ [EnterCriticalSection]\<rparr>)))
   \<and> morpheus_checkpoint MorpheusStub w
       = Returned False (w\<lparr>calls := calls w @ [Checkpoint]\<rparr>)
   \<and> is_kernel_pressured MorpheusStub threshold w
       = (False, w\<lparr>calls := calls w @ [PressureLevel]\<rparr>)"
proof -
  have enter: "morpheus_critical_enter (MorpheusStub :: 's morpheus_module)
                 = (\<lambda>w. w\<lparr>calls := calls w @ [EnterCriticalSection]\<rparr>)"
    by (simp add: fun_eq_iff morpheus_critical_enter_def invoke_eq MorpheusStub_def)
  have exit: "morpheus_critical_finally (MorpheusStub :: 's morpheus_module)
                 = (\<lambda>w. w\<lparr>calls := calls w @ [ExitCriticalSection]\<rparr>)"
    by (simp add: fun_eq_iff morpheus_critical_finally_def invoke_eq MorpheusStub_def)
  have scope: "run script (async_with_morpheus_critical (MorpheusStub :: 's morpheus_module) body w)
       = try_finally (\<lambda>w'. w'\<lparr>calls := calls w' @ [ExitCriticalSection]\<rparr>)
           (run script (body (w\<lparr>calls := calls w @ [EnterCriticalSection]\<rparr>)))"
    by (simp add: async_with_morpheus_critical_def run_try_finally enter exit)
  have chk: "morpheus_checkpoint (MorpheusStub :: 's morpheus_module) w
       = Returned False (w\<lparr>calls := calls w @ [Checkpoint]\<rparr>)"
    by (simp add: morpheus_checkpoint_def invoke_eq MorpheusStub_def)
  have press: "is_kernel_pressured (MorpheusStub :: 's morpheus_module) threshold w
       = (False, w\<lparr>calls := calls w @ [PressureLevel]\<rparr>)"
    by (simp add: is_kernel_pressured_def invoke_eq MorpheusStub_def)
  show ?thesis
    by (simp add: scope chk press) (simp add: MorpheusStub_def)
qed

lemma import_without_extension:
  "import_module None ''_morpheus'' = (None :: 's module_object option)"
  "import_module None ''morpheus'' = Some (Package None :: 's module_object)"
  by (simp_all add: import_module_def)

text \<open>
  C3. The stub is not what the code binds when the extension is missing. With no
  \<open>_morpheus\<close> installed, \<open>import morpheus\<close> still succeeds in both integration modules,
  because it finds the package, and the package then has none of the native names. So
  \<open>_morpheus\<close> is the package and not a \<open>_MorpheusStub()\<close>: \<open>_morpheus.checkpoint()\<close>,
  \<open>yield_requested()\<close>, \<open>acknowledge_yield()\<close>, \<open>pressure_level()\<close>,
  \<open>is_in_critical_section()\<close> raise \<open>AttributeError\<close>, \<open>morpheus_checkpoint()\<close> raises it
  instead of returning false, the critical-section scope raises it before its body runs,
  and \<open>async_checkpoint()\<close> raises \<open>NameError\<close>. On a stub the same calls return the
  neutral values the claim names.
\<close>

theorem missing_extension_binds_package_not_stub:
  fixes w :: "'s world" and body :: "'s world \<Rightarrow> ('s world, 'a) step"
  shows
  "bind_morpheus None = (Package None :: 's module_object)
   \<and> bind_morpheus_asyncio None = (Package None :: 's module_object)
   \<and> call_bound (bind_morpheus None) ''checkpoint'' Checkpoint checkpoint w
       = Inl (exc.AttributeError ''checkpoint'')
   \<and> call_bound (bind_morpheus None) ''yield_requested'' YieldRequested yield_requested w
       = Inl (exc.AttributeError ''yield_requested'')
   \<and> call_bound (bind_morpheus None) ''acknowledge_yield'' AcknowledgeYield acknowledge_yield w
       = Inl (exc.AttributeError ''acknowledge_yield'')
   \<and> call_bound (bind_morpheus None) ''pressure_level'' PressureLevel pressure_level w
       = Inl (exc.AttributeError ''pressure_level'')
   \<and> call_bound (bind_morpheus None) ''is_in_critical_section'' IsInCriticalSection
         is_in_critical_section w
       = Inl (exc.AttributeError ''is_in_critical_section'')
   \<and> morpheus_checkpoint_bound (bind_morpheus None) w
       = Raised (exc.AttributeError ''checkpoint'') w
   \<and> morpheus_checkpoint_bound (bind_morpheus_asyncio None) w
       = Raised (exc.AttributeError ''checkpoint'') w
   \<and> async_with_morpheus_critical_bound (bind_morpheus None) body w
       = Raised (exc.AttributeError ''enter_critical_section'') w
   \<and> async_with_morpheus_critical_bound (bind_morpheus_asyncio None) body w
       = Raised (exc.AttributeError ''enter_critical_section'') w
   \<and> async_checkpoint None coroutine w = Raised NameError w
   \<and> call_bound (Instance MorpheusStub) ''checkpoint'' Checkpoint checkpoint w
       = Inr (False, w\<lparr>calls := calls w @ [Checkpoint]\<rparr>)
   \<and> call_bound (Instance MorpheusStub) ''pressure_level'' PressureLevel pressure_level w
       = Inr (None, w\<lparr>calls := calls w @ [PressureLevel]\<rparr>)
   \<and> morpheus_checkpoint_bound (Instance MorpheusStub) w
       = Returned False (w\<lparr>calls := calls w @ [Checkpoint]\<rparr>)"
proof -
  have asyncio: "bind_morpheus None = (Package None :: 's module_object)"
    by (simp add: bind_morpheus_def import_without_extension)
  have standalone: "bind_morpheus_asyncio None = (Package None :: 's module_object)"
    by (simp add: bind_morpheus_asyncio_def import_without_extension)
  have stub_chk: "morpheus_checkpoint (MorpheusStub :: 's morpheus_module) w
       = Returned False (w\<lparr>calls := calls w @ [Checkpoint]\<rparr>)"
    by (simp add: morpheus_checkpoint_def invoke_eq MorpheusStub_def)
  show ?thesis
    unfolding asyncio standalone
    by (simp add: call_bound_def morpheus_checkpoint_bound_def
        async_with_morpheus_critical_bound_def async_checkpoint_def stub_chk invoke_eq)
      (simp add: MorpheusStub_def)
qed

subsection \<open>Layout of the Shared Control Block\<close>

lemma round_up_values: "round_up 0 8 = 0" "round_up 8 8 = 8" "round_up 16 4 = 16" "round_up 20 4 = 20"
  "round_up 24 8 = 24" "round_up 64 4 = 64" "round_up 68 4 = 68" "round_up 72 8 = 72"
  "round_up 80 4 = 80" "round_up 84 4 = 84" "round_up 88 8 = 88" "round_up 96 4 = 96"
  "round_up 100 4 = 100" "round_up 104 8 = 104" "round_up 128 8 = 128"
  by (simp_all add: round_up_def)

lemma field_alignment_pack8: "field_alignment (Some 8) c_uint32 = 4" "field_alignment (Some 8) c_uint64 = 8"
  "field_alignment (Some 8) (Array c_uint64 n) = 8"
  by (simp_all add: field_alignment_def)

lemma scb_placed:
  "place_fields (struct_pack MorpheusScb) 0 (struct_fields MorpheusScb) =
     ([(''preempt_seq'', 0), (''budget_remaining_ns'', 8), (''kernel_pressure_level'', 16),
       (''worker_state'', 20), (''_reserved0'', 24), (''is_in_critical_section'', 64),
       (''escapable'', 68), (''last_ack_seq'', 72), (''runtime_priority'', 80),
       (''last_yield_reason'', 84), (''_reserved1'', 88), (''escalation_policy'', 96),
       (''_pad'', 100), (''_reserved2'', 104)], 128)"
  by (simp add: MorpheusScb_def field_alignment_pack8 round_up_values)


lemma scb_alignment: "structure_alignment MorpheusScb = 8"
  by (simp add: structure_alignment_def MorpheusScb_def field_alignment_pack8)

lemma scb_sizeof: "sizeof MorpheusScb = 128"
  by (simp add: sizeof_def scb_placed scb_alignment round_up_values)

lemma scb_offsets:
  "field_offset MorpheusScb ''preempt_seq'' = Some 0"
  "field_offset MorpheusScb ''budget_remaining_ns'' = Some 8"
  "field_offset MorpheusScb ''kernel_pressure_level'' = Some 16"
  "field_offset MorpheusScb ''worker_state'' = Some 20"
  "field_offset MorpheusScb ''is_in_critical_section'' = Some 64"
  "field_offset MorpheusScb ''escapable'' = Some 68"
  "field_offset MorpheusScb ''last_ack_seq'' = Some 72"
  "field_offset MorpheusScb ''runtime_priority'' = Some 80"
  "field_offset MorpheusScb ''last_yield_reason'' = Some 84"
  "field_offset MorpheusScb ''escalation_policy'' = Some 96"
  by (simp_all add: field_offset_def scb_placed)

lemma scb_check: "check_offsets MorpheusScb expected = Inr ()"
  by (simp add: expected_def scb_offsets)

text \<open>
  C4. \<open>sizeof(MorpheusScb)\<close> is 128, every field that \<open>verify_offsets\<close> checks lies at the
  offset of the table, and \<open>verify_offsets()\<close> returns \<open>True\<close> without raising.
\<close>

theorem scb_layout_matches_table:
  "sizeof MorpheusScb = 128
   \<and> field_offset MorpheusScb ''preempt_seq'' = Some 0
   \<and> field_offset MorpheusScb ''budget_remaining_ns'' = Some 8
   \<and> field_offset MorpheusScb ''kernel_pressure_level'' = Some 16
   \<and> field_offset MorpheusScb ''worker_state'' = Some 20
   \<and> field_offset MorpheusScb ''is_in_critical_section'' = Some 64
   \<and> field_offset MorpheusScb ''escapable'' = Some 68
   \<and> field_offset MorpheusScb ''last_ack_seq'' = Some 72
   \<and> field_offset MorpheusScb ''runtime_priority'' = Some 80
   \<and> field_offset MorpheusScb ''last_yield_reason'' = Some 84
   \<and> field_offset MorpheusScb ''escalation_policy'' = Some 96
   \<and> verify_offsets = Inr True"
  by (simp add: scb_sizeof scb_offsets verify_offsets_def scb_check)

subsection \<open>The adaptive pacer\<close>

lemma interval_exact_decision:
  fixes d M x :: int
  shows "(d \<ge> M - x div 100) \<longleftrightarrow> (real_of_int d \<ge> real_of_int M - real_of_int x / 100)"
proof -
  have fl: "x div 100 = \<lfloor>real_of_int x / real_of_int 100\<rfloor>"
    by (simp only: floor_divide_of_int_eq)
  have "(d \<ge> M - x div 100) \<longleftrightarrow> (M - d \<le> x div 100)"
    by linarith
  also have "\<dots> \<longleftrightarrow> (real_of_int (M - d) \<le> real_of_int x / real_of_int 100)"
    unfolding fl by (rule le_floor_iff)
  also have "\<dots> \<longleftrightarrow> (real_of_int d \<ge> real_of_int M - real_of_int x / 100)"
    by (simp only: of_int_diff) linarith
  finally show ?thesis .
qed

lemma should_check_unfold:
  "should_check m self i w =
     (if i - last_check self \<ge> interval self (or_zero (fst (pressure_level m (rt w))))
      then (True, self\<lparr>last_check := i\<rparr>, snd (invoke PressureLevel (pressure_level m) w))
      else (False, self, snd (invoke PressureLevel (pressure_level m) w)))"
  by (simp add: should_check_def invoke_eq)

lemma or_zero_Some: "or_zero (Some p) = p"
  by (simp add: or_zero_def)

lemma or_zero_None: "or_zero None = 0"
  by (simp add: or_zero_def)

lemma native_pressure:
  "fst (pressure_level native_module (rt pressured_world)) = Some 50"
  "fst (pressure_level native_module (rt quiet_world)) = Some 0"
  "fst (pressure_level native_module (rt unbound_world)) = None"
  by (simp_all add: native_module_def pressured_world_def quiet_world_def unbound_world_def
      quiet_slot_def)

lemma native_pressure_call:
  "snd (invoke PressureLevel (pressure_level native_module) w) = w\<lparr>calls := calls w @ [PressureLevel]\<rparr>"
  by (simp add: invoke_eq native_module_def)

lemma default_checkpointer:
  "AdaptiveCheckpointer_init None None = \<lparr>min_interval = 100, max_interval = 10000, last_check = 0\<rparr>"
  by (simp add: AdaptiveCheckpointer_init_def)

text \<open>
  C5. With pressure \<open>p\<close> between 0 and 100, \<open>should_check(i)\<close> uses the interval
  \<open>max_interval - (max_interval - min_interval) * p // 100\<close>. It returns true and moves its
  cursor to \<open>i\<close> when \<open>i - last_check\<close> reaches the interval, and returns false with the
  cursor unchanged otherwise. The division is the floor division of integers; the decision
  is nevertheless the one the exact quotient gives, because \<open>i - last_check\<close> is an integer.
  With the default bounds 100 and 10000 the interval is 10000 at pressure 0, 100 at
  pressure 100 and 5050 at pressure 50.
\<close>

theorem should_check_interval_and_cursor:
  assumes "fst (pressure_level m (rt w)) = Some p" and "0 \<le> p" and "p \<le> 100"
  shows
  "interval self p
     = max_interval self - ((max_interval self - min_interval self) * p) div 100
   \<and> (i - last_check self \<ge> interval self p \<longrightarrow>
        should_check m self i w
          = (True, self\<lparr>last_check := i\<rparr>, snd (invoke PressureLevel (pressure_level m) w)))
   \<and> (\<not> i - last_check self \<ge> interval self p \<longrightarrow>
        should_check m self i w
          = (False, self, snd (invoke PressureLevel (pressure_level m) w)))
   \<and> (fst (should_check m self i w) \<longleftrightarrow>
        real_of_int (i - last_check self)
          \<ge> real_of_int (max_interval self)
              - real_of_int ((max_interval self - min_interval self) * p) / 100)
   \<and> interval (AdaptiveCheckpointer_init (Some 100) (Some 10000)) 0 = 10000
   \<and> interval (AdaptiveCheckpointer_init (Some 100) (Some 10000)) 100 = 100
   \<and> interval (AdaptiveCheckpointer_init (Some 100) (Some 10000)) 50 = 5050"
proof -
  have dec: "fst (should_check m self i w) \<longleftrightarrow> i - last_check self \<ge> interval self p"
    by (simp add: should_check_unfold assms(1) or_zero_Some)
  have exact: "fst (should_check m self i w) \<longleftrightarrow>
        real_of_int (i - last_check self)
          \<ge> real_of_int (max_interval self)
              - real_of_int ((max_interval self - min_interval self) * p) / 100"
    unfolding dec interval_def by (rule interval_exact_decision)
  have ex: "interval (AdaptiveCheckpointer_init (Some 100) (Some 10000)) 0 = 10000"
    "interval (AdaptiveCheckpointer_init (Some 100) (Some 10000)) 100 = 100"
    "interval (AdaptiveCheckpointer_init (Some 100) (Some 10000)) 50 = 5050"
    by (simp_all add: interval_def AdaptiveCheckpointer_init_def)
  have def: "interval self p
     = max_interval self - ((max_interval self - min_interval self) * p) div 100"
    by (simp add: interval_def)
  have yes: "i - last_check self \<ge> interval self p \<longrightarrow>
        should_check m self i w
          = (True, self\<lparr>last_check := i\<rparr>, snd (invoke PressureLevel (pressure_level m) w))"
    by (simp add: should_check_unfold assms(1) or_zero_Some)
  have no: "\<not> i - last_check self \<ge> interval self p \<longrightarrow>
        should_check m self i w
          = (False, self, snd (invoke PressureLevel (pressure_level m) w))"
    by (simp add: should_check_unfold assms(1) or_zero_Some)
  from def yes no exact ex show ?thesis by blast
qed

theorem should_check_witness:
  "fst (pressure_level native_module (rt pressured_world)) = Some 50
   \<and> should_check native_module (AdaptiveCheckpointer_init None None) 5050 pressured_world
       = (True, \<lparr>min_interval = 100, max_interval = 10000, last_check = 5050\<rparr>,
          pressured_world\<lparr>calls := [PressureLevel]\<rparr>)
   \<and> should_check native_module (AdaptiveCheckpointer_init None None) 5049 pressured_world
       = (False, \<lparr>min_interval = 100, max_interval = 10000, last_check = 0\<rparr>,
          pressured_world\<lparr>calls := [PressureLevel]\<rparr>)"
proof -
  have iv: "interval (AdaptiveCheckpointer_init None None) 50 = 5050"
    by (simp add: interval_def default_checkpointer)
  have c: "calls pressured_world = []"
    by (simp add: pressured_world_def)
  from should_check_interval_and_cursor [OF native_pressure(1),
      where self = "AdaptiveCheckpointer_init None None" and i = 5050]
    should_check_interval_and_cursor [OF native_pressure(1),
      where self = "AdaptiveCheckpointer_init None None" and i = 5049]
  show ?thesis
    by (simp add: iv native_pressure native_pressure_call c default_checkpointer)
qed

text \<open>
  C6. For pressures \<open>0 \<le> p1 \<le> p2 \<le> 100\<close> and bounds \<open>0 < min_interval \<le> max_interval\<close>,
  the interval at \<open>p2\<close> is at most the interval at \<open>p1\<close>, and both lie between
  \<open>min_interval\<close> and \<open>max_interval\<close>.
\<close>

theorem interval_monotone_and_bounded:
  assumes "0 \<le> p1" and "p1 \<le> p2" and "p2 \<le> 100"
    and "0 < min_interval self" and "min_interval self \<le> max_interval self"
  shows "interval self p2 \<le> interval self p1
       \<and> min_interval self \<le> interval self p1 \<and> interval self p1 \<le> max_interval self
       \<and> min_interval self \<le> interval self p2 \<and> interval self p2 \<le> max_interval self"
proof -
  let ?d = "max_interval self - min_interval self"
  have d: "0 \<le> ?d" using assms(5) by simp
  have bound: "0 \<le> (?d * p) div 100 \<and> (?d * p) div 100 \<le> ?d" if "0 \<le> p" "p \<le> 100" for p
  proof -
    have "0 \<le> ?d * p" using d that(1) by simp
    then have lo: "0 \<le> (?d * p) div 100" by simp
    have "?d * p \<le> ?d * 100" using d that(2) by (rule mult_left_mono[rotated])
    then have "(?d * p) div 100 \<le> (?d * 100) div 100" by (rule zdiv_mono1) simp
    then have "(?d * p) div 100 \<le> ?d" by simp
    with lo show ?thesis by simp
  qed
  have "?d * p1 \<le> ?d * p2" using d assms(2) by (rule mult_left_mono[rotated])
  then have mono: "(?d * p1) div 100 \<le> (?d * p2) div 100" by (rule zdiv_mono1) simp
  from assms have r1: "0 \<le> p1" "p1 \<le> 100" and r2: "0 \<le> p2" "p2 \<le> 100" by simp_all
  from bound [OF r1] bound [OF r2] mono show ?thesis
    unfolding interval_def by linarith
qed

theorem interval_monotone_witness:
  "interval (AdaptiveCheckpointer_init None None) 100 \<le> interval (AdaptiveCheckpointer_init None None) 25
   \<and> interval (AdaptiveCheckpointer_init None None) 25 = 7525
   \<and> interval (AdaptiveCheckpointer_init None None) 100 = 100
   \<and> min_interval (AdaptiveCheckpointer_init None None) \<le> interval (AdaptiveCheckpointer_init None None) 25
   \<and> interval (AdaptiveCheckpointer_init None None) 25 \<le> max_interval (AdaptiveCheckpointer_init None None)"
proof -
  have "(0::int) \<le> 25" "(25::int) \<le> 100" "(100::int) \<le> 100"
    "0 < min_interval (AdaptiveCheckpointer_init None None)"
    "min_interval (AdaptiveCheckpointer_init None None) \<le> max_interval (AdaptiveCheckpointer_init None None)"
    by (simp_all add: default_checkpointer)
  from interval_monotone_and_bounded [OF this]
  show ?thesis
    by (simp add: interval_def default_checkpointer)
qed

text \<open>
  C10. Where \<open>pressure_level()\<close> returns \<open>None\<close>, \<open>should_check\<close> decides and moves its cursor
  exactly as it does where the pressure is 0: the interval is \<open>max_interval\<close>.
\<close>

theorem absent_pressure_behaves_as_pressure_zero:
  assumes "fst (pressure_level m (rt w)) = None" and "fst (pressure_level m' (rt w')) = Some 0"
  shows "fst (should_check m self i w) = fst (should_check m' self i w')
       \<and> fst (snd (should_check m self i w)) = fst (snd (should_check m' self i w'))
       \<and> (fst (should_check m self i w) \<longleftrightarrow> i - last_check self \<ge> max_interval self)
       \<and> interval self (or_zero None) = max_interval self"
  by (simp add: should_check_unfold assms or_zero_Some or_zero_None interval_def)

theorem absent_pressure_witness:
  "fst (pressure_level native_module (rt unbound_world)) = None
   \<and> fst (pressure_level native_module (rt quiet_world)) = Some 0
   \<and> fst (should_check native_module (AdaptiveCheckpointer_init None None) 10000 unbound_world)
   \<and> fst (should_check native_module (AdaptiveCheckpointer_init None None) 10000 quiet_world)
   \<and> \<not> fst (should_check native_module (AdaptiveCheckpointer_init None None) 9999 unbound_world)
   \<and> \<not> fst (should_check native_module (AdaptiveCheckpointer_init None None) 9999 quiet_world)"
proof -
  note t = absent_pressure_behaves_as_pressure_zero [OF native_pressure(3) native_pressure(2)]
  note same = t [THEN conjunct1]
  note dec = t [THEN conjunct2, THEN conjunct2, THEN conjunct1]
  have a: "fst (should_check native_module (AdaptiveCheckpointer_init None None) 10000 unbound_world)"
    using dec [of "AdaptiveCheckpointer_init None None" 10000] by (simp add: default_checkpointer)
  have b: "\<not> fst (should_check native_module (AdaptiveCheckpointer_init None None) 9999 unbound_world)"
    using dec [of "AdaptiveCheckpointer_init None None" 9999] by (simp add: default_checkpointer)
  have a': "fst (should_check native_module (AdaptiveCheckpointer_init None None) 10000 quiet_world)"
    using a same [of "AdaptiveCheckpointer_init None None" 10000] by simp
  have b': "\<not> fst (should_check native_module (AdaptiveCheckpointer_init None None) 9999 quiet_world)"
    using b same [of "AdaptiveCheckpointer_init None None" 9999] by simp
  from a b a' b' show ?thesis by (simp add: native_pressure)
qed

subsection \<open>Pressure queries\<close>

text \<open>
  C9. \<open>is_kernel_pressured(threshold)\<close> is true exactly when \<open>pressure_level()\<close> returns a
  level and that level is strictly greater than the threshold, 50 when the argument is
  omitted; where the pressure is absent it is false for every threshold. Its only effect
  is the one call of \<open>pressure_level()\<close>.
\<close>

theorem is_kernel_pressured_iff_present_and_above:
  "(fst (is_kernel_pressured m threshold_arg w) \<longleftrightarrow>
      (\<exists>level. fst (pressure_level m (rt w)) = Some level
         \<and> level > (case threshold_arg of None \<Rightarrow> 50 | Some t \<Rightarrow> t)))
   \<and> (fst (pressure_level m (rt w)) = None \<longrightarrow> \<not> fst (is_kernel_pressured m threshold_arg w))
   \<and> is_kernel_pressured m None w = is_kernel_pressured m (Some 50) w
   \<and> snd (is_kernel_pressured m threshold_arg w) = snd (invoke PressureLevel (pressure_level m) w)"
  by (cases "fst (pressure_level m (rt w))")
    (simp_all add: is_kernel_pressured_def invoke_eq)

theorem is_kernel_pressured_witness:
  "fst (pressure_level native_module (rt unbound_world)) = None
   \<and> \<not> fst (is_kernel_pressured native_module (Some (- 1)) unbound_world)
   \<and> fst (is_kernel_pressured native_module (Some 49) pressured_world)
   \<and> \<not> fst (is_kernel_pressured native_module None pressured_world)"
proof -
  note iff = is_kernel_pressured_iff_present_and_above [THEN conjunct1]
  have a: "\<not> fst (is_kernel_pressured native_module (Some (- 1)) unbound_world)"
    using iff [of native_module "Some (- 1)" unbound_world] by (simp add: native_pressure)
  have b: "fst (is_kernel_pressured native_module (Some 49) pressured_world)"
    using iff [of native_module "Some 49" pressured_world] by (simp add: native_pressure)
  have c: "\<not> fst (is_kernel_pressured native_module None pressured_world)"
    using iff [of native_module None pressured_world] by (simp add: native_pressure)
  from a b c show ?thesis by (simp add: native_pressure)
qed

subsection \<open>Constants\<close>

text \<open>
  C8. The configuration constants of \<open>_morpheus_shared.py\<close> have the values
  \<open>MAX_WORKERS = 1024\<close>, \<open>DEFAULT_SLICE_NS = 5000000\<close>, \<open>GRACE_PERIOD_NS = 100000000\<close> and
  \<open>RINGBUF_SIZE = 262144\<close>.
\<close>

theorem config_constants_values:
  "MAX_WORKERS = 1024 \<and> DEFAULT_SLICE_NS = 5000000
   \<and> GRACE_PERIOD_NS = 100000000 \<and> RINGBUF_SIZE = 262144"
  by (simp add: MAX_WORKERS_def DEFAULT_SLICE_NS_def GRACE_PERIOD_NS_def RINGBUF_SIZE_def)

end
